theory Spec2Isabelle
  imports Complex_Main "HOL-Library.Sublist" "HOL-Library.Multiset"
begin

section \<open>StatCoach Volleyball: the research-based analysis module (analysis.js)\<close>

text \<open>
  Conventions of the embedding.
  \<^item> A JavaScript number is modelled as a \<open>real\<close>: arithmetic is exact, \<open>Math.log\<close> is
    \<open>ln\<close>. \<open>NaN\<close> and the infinities have no counterpart; the one place where the module
    could produce them from numeric input (a division by a zero set count) is an explicit
    \<open>None\<close>. Where the rounding of binary64 arithmetic decides a property (the monotonicity
    of the impacts), normalization and impact calculation are modelled a second time, every
    operation rounded to the nearest binary64 number.
  \<^item> A JavaScript object whose keys matter is the list of its own properties in insertion
    order, keys distinct; \<open>obj[key]\<close> is \<open>map_of obj key\<close>, and \<open>undefined\<close> is \<open>None\<close>.
  \<^item> A string is the list of the bytes of its UTF-8 text, as the source file holds it.
\<close>

subsection \<open>Constant tables\<close>

definition RESEARCH_BENCHMARKS_win :: "(string \<times> real) list" where
  "RESEARCH_BENCHMARKS_win =
     [(''kills'', 46.9), (''errors'', 14.3), (''attempts'', 96.2), (''serviceAces'', 6.45),
      (''serviceErrors'', 16.0), (''receptionErrors'', 3.71), (''digs'', 31.1),
      (''soloBlocks'', 1.94), (''blockAssists'', 13.9), (''blockErrors'', 1.24)]"

definition RESEARCH_BENCHMARKS_loss :: "(string \<times> real) list" where
  "RESEARCH_BENCHMARKS_loss =
     [(''kills'', 42.8), (''errors'', 19.3), (''attempts'', 103.0), (''serviceAces'', 3.93),
      (''serviceErrors'', 15.5), (''receptionErrors'', 6.17), (''digs'', 29.5),
      (''soloBlocks'', 1.58), (''blockAssists'', 10.4), (''blockErrors'', 1.44)]"

definition ODDS_RATIOS :: "(string \<times> real) list" where
  "ODDS_RATIOS =
     [(''kills'', 1.255), (''errors'', 0.921), (''attempts'', 0.881), (''serviceAces'', 1.338),
      (''serviceErrors'', 0.992), (''receptionErrors'', 0.757), (''digs'', 1.152),
      (''soloBlocks'', 1.257), (''blockAssists'', 1.126), (''blockErrors'', 0.867)]"

subsection \<open>Data\<close>

text \<open>The raw box score. \<open>totalSets\<close> may be absent (\<open>None\<close>).\<close>

record RawStats =
  totalKills :: real
  killAttempts :: real
  attackErrors :: real
  serviceAces :: real
  serviceErrors :: real
  receptionErrors :: real
  digs :: real
  soloBlocks :: real
  blockAssists :: real
  totalSets :: "real option"

type_synonym NormalizedStats = "(string \<times> real) list"

text \<open>
  The entries of the impacts object and of the two recommendation lists share the fields
  \<open>impact\<close>, \<open>value\<close> and \<open>benchmark\<close>; they are one parent record, extended three ways.
  The field \<open>value\<close> is written \<open>val\<close>.
\<close>

record Scored =
  impact :: real
  val :: real
  benchmark :: real

record Impact = Scored +
  deviation :: real
  oddsRatio :: real

record Strength = Scored +
  metric :: string

record Weakness = Strength +
  priority :: real

record Recommendations =
  weaknesses :: "Weakness list"
  strengths :: "Strength list"
  allImpacts :: "(string \<times> Impact) list"

record Metrics =
  killEfficiency :: real
  acesPerSet :: real
  blocksPerSet :: real
  digsPerSet :: real
  receptionErrorRate :: real
  attackErrorRate :: real

record AnalysisResult =
  normalized :: NormalizedStats
  impacts :: "(string \<times> Impact) list"
  recommendations :: Recommendations
  insightsText :: string
  metrics :: Metrics

subsection \<open>normalizeStats\<close>

text \<open>
  The second argument is optional and defaults to 3. A set count of 0 makes the factor
  \<open>3.5 / 0\<close> infinite in JavaScript: the result is then not a table of finite numbers,
  which the model reports as \<open>None\<close>.
\<close>

definition normalizeStats :: "RawStats \<Rightarrow> real option \<Rightarrow> NormalizedStats option" where
  "normalizeStats stats sets_arg =
     (let sets = (case sets_arg of None \<Rightarrow> 3 | Some s \<Rightarrow> s) in
      if sets = 0 then None
      else
        (let normalizationFactor = 3.5 / sets in
         Some [(''kills'', totalKills stats * normalizationFactor),
               (''errors'', attackErrors stats * normalizationFactor),
               (''attempts'', killAttempts stats * normalizationFactor),
               (''serviceAces'', serviceAces stats * normalizationFactor),
               (''serviceErrors'', serviceErrors stats * normalizationFactor),
               (''receptionErrors'', receptionErrors stats * normalizationFactor),
               (''digs'', digs stats * normalizationFactor),
               (''soloBlocks'', soloBlocks stats * normalizationFactor),
               (''blockAssists'', blockAssists stats * normalizationFactor)]))"

subsection \<open>calculateImpacts\<close>

text \<open>
  The loop \<open>for (let metric in ODDS_RATIOS)\<close>, over the part of the table still to visit.
  An entry is added when both \<open>normalizedStats[metric]\<close> and \<open>midpoint[metric]\<close> are defined.
\<close>

fun calculateImpacts_loop :: "NormalizedStats \<Rightarrow> (string \<times> real) list \<Rightarrow> (string \<times> Impact) list" where
  "calculateImpacts_loop normalizedStats [] = []"
| "calculateImpacts_loop normalizedStats ((m, ratio) # rest) =
     (case map_of normalizedStats m of
        None \<Rightarrow> calculateImpacts_loop normalizedStats rest
      | Some v \<Rightarrow>
          (case map_of RESEARCH_BENCHMARKS_win m of
             None \<Rightarrow> calculateImpacts_loop normalizedStats rest
           | Some midpoint \<Rightarrow>
               (let dev = v - midpoint;
                    logOddsChange = dev * ln ratio;
                    percentageImpact = logOddsChange * 100 / ln 2
                in (m, \<lparr>impact = percentageImpact, val = v, benchmark = midpoint,
                        deviation = dev, oddsRatio = ratio\<rparr>)
                   # calculateImpacts_loop normalizedStats rest)))"

definition calculateImpacts :: "NormalizedStats \<Rightarrow> (string \<times> Impact) list" where
  "calculateImpacts normalizedStats = calculateImpacts_loop normalizedStats ODDS_RATIOS"

subsection \<open>getPerformanceLevel\<close>

text \<open>A comparison of a number with \<open>undefined\<close> is false.\<close>

definition num_le :: "real \<Rightarrow> real option \<Rightarrow> bool" where
  "num_le x b = (case b of None \<Rightarrow> False | Some y \<Rightarrow> x \<le> y)"

definition num_ge :: "real \<Rightarrow> real option \<Rightarrow> bool" where
  "num_ge x b = (case b of None \<Rightarrow> False | Some y \<Rightarrow> x \<ge> y)"

definition lowerIsBetter :: "string list" where
  "lowerIsBetter = [''errors'', ''attempts'', ''serviceErrors'', ''receptionErrors'', ''blockErrors'']"

definition getPerformanceLevel :: "real \<Rightarrow> string \<Rightarrow> string" where
  "getPerformanceLevel v m =
     (let winBench = map_of RESEARCH_BENCHMARKS_win m;
          lossBench = map_of RESEARCH_BENCHMARKS_loss m
      in if m \<in> set lowerIsBetter then
           (if num_le v winBench then ''excellent''
            else if num_le v lossBench then ''good''
            else ''needs_improvement'')
         else
           (if num_ge v winBench then ''excellent''
            else if num_ge v lossBench then ''good''
            else ''needs_improvement''))"

subsection \<open>generateRecommendations\<close>

text \<open>The two \<open>map\<close> callbacks that build the entries of the result.\<close>

definition weaknessOf :: "string \<times> Impact \<Rightarrow> Weakness" where
  "weaknessOf e =
     \<lparr>impact = impact (snd e), val = val (snd e), benchmark = benchmark (snd e),
      metric = fst e, priority = \<bar>impact (snd e)\<bar>\<rparr>"

definition strengthOf :: "string \<times> Impact \<Rightarrow> Strength" where
  "strengthOf e =
     \<lparr>impact = impact (snd e), val = val (snd e), benchmark = benchmark (snd e),
      metric = fst e\<rparr>"

text \<open>
  \<open>Array.prototype.sort\<close> is stable, and the comparator
  \<open>(a, b) => Math.abs(b[1].impact) - Math.abs(a[1].impact)\<close> orders by descending
  \<open>|impact|\<close>: this is the stable sort on the key \<open>- |impact|\<close>.
\<close>

definition generateRecommendations :: "(string \<times> Impact) list \<Rightarrow> Recommendations" where
  "generateRecommendations imps =
     (let sortedImpacts = sort_key (\<lambda>e. - \<bar>impact (snd e)\<bar>) imps;
          weak = take 3 (filter (\<lambda>e. impact (snd e) < - 1) sortedImpacts);
          strong = take 2 (filter (\<lambda>e. impact (snd e) > 1) sortedImpacts)
      in \<lparr>weaknesses = map weaknessOf weak,
          strengths = map strengthOf strong,
          allImpacts = sortedImpacts\<rparr>)"

subsection \<open>Strings and number formatting\<close>

definition digitChar :: "nat \<Rightarrow> char" where
  "digitChar d = ''0123456789'' ! (d mod 10)"

fun showNat :: "nat \<Rightarrow> string" where
  "showNat n = (if n < 10 then [digitChar n] else showNat (n div 10) @ [digitChar (n mod 10)])"

text \<open>
  \<open>x.toFixed(1)\<close>: the sign, then the integer nearest to \<open>|x| * 10\<close> (the larger one on a
  tie) with a point before its last digit. Exact below \<open>10^21\<close>, where JavaScript switches
  to exponent notation.
\<close>

definition toFixed1 :: "real \<Rightarrow> string" where
  "toFixed1 x =
     (let n = nat \<lfloor>\<bar>x\<bar> * 10 + 1 / 2\<rfloor>
      in (if x < 0 then ''-'' else []) @ showNat (n div 10) @ ''.'' @ [digitChar (n mod 10)])"

text \<open>\<open>toLowerCase\<close>, on the ASCII letters (every display name of the module is ASCII).\<close>

definition toLowerCase :: "string \<Rightarrow> string" where
  "toLowerCase s =
     map (\<lambda>c. let k = (of_char c :: nat) in if 65 \<le> k \<and> k \<le> 90 then char_of (k + 32) else c) s"

text \<open>\<open>s.includes(t)\<close>: \<open>t\<close> occurs in \<open>s\<close> as a contiguous substring.\<close>

fun includes_str :: "string \<Rightarrow> string \<Rightarrow> bool" where
  "includes_str [] t = (t = [])"
| "includes_str (c # s) t = (prefix t (c # s) \<or> includes_str s t)"

text \<open>\<open>lines.join(sep)\<close>.\<close>

fun join :: "string \<Rightarrow> string list \<Rightarrow> string" where
  "join sep [] = []"
| "join sep [l] = l"
| "join sep (l # l' # ls) = l @ sep @ join sep (l' # ls)"

subsection \<open>formatMetricName\<close>

text \<open>
  \<open>names[metric] || metric\<close>: the display name, or the key itself when the table has none.
  Every name in the table is a non-empty string, so only a missing key takes the fallback.
\<close>

definition names :: "(string \<times> string) list" where
  "names =
     [(''kills'', ''Kills''), (''errors'', ''Attack Errors''), (''attempts'', ''Attack Attempts''),
      (''serviceAces'', ''Service Aces''), (''serviceErrors'', ''Service Errors''),
      (''receptionErrors'', ''Reception Errors''), (''digs'', ''Digs''),
      (''soloBlocks'', ''Solo Blocks''), (''blockAssists'', ''Block Assists''),
      (''blockErrors'', ''Block Errors'')]"

definition formatMetricName :: "string \<Rightarrow> string" where
  "formatMetricName m = (case map_of names m of None \<Rightarrow> m | Some n \<Rightarrow> n)"

subsection \<open>generateInsightsText\<close>

text \<open>The literal lines of the narrative. \<open>bullet\<close> is the bullet mark that opens a list line.\<close>

definition bullet :: string where
  "bullet = [CHR 0xC3, CHR 0xA2, CHR 0xE2, CHR 0x82, CHR 0xAC, CHR 0xC2, CHR 0xA2]"

definition headerLine :: string where
  "headerLine = ''**Performance Analysis Based on NCAA Research**\<newline>''"

definition summaryStrong :: string where
  "summaryStrong = ''Your statistics profile suggests strong performance aligned with winning teams from NCAA Division I research.\<newline>''"

definition summaryBelow :: string where
  "summaryBelow = ''Your statistics profile shows several areas below winning benchmarks. Focus on the priorities below for maximum improvement.\<newline>''"

definition summaryMixed :: string where
  "summaryMixed = ''Your statistics show a mixed profile with both strengths and areas for improvement.\<newline>''"

definition prioritiesHeader :: string where
  "prioritiesHeader =
     ''**'' @ [CHR 0xC3, CHR 0xB0, CHR 0xC5, CHR 0xB8, CHR 0xC5, CHR 0xBD, CHR 0xC2, CHR 0xAF]
     @ '' Top Practice Priorities**\<newline>''"

definition strengthsHeader :: string where
  "strengthsHeader =
     ''**'' @ [CHR 0xC3, CHR 0xA2, CHR 0xC5, CHR 0x93, CHR 0xE2, CHR 0x80, CHR 0xA6]
     @ '' Areas of Strength**\<newline>''"

definition findingsHeader :: string where
  "findingsHeader =
     ''**'' @ [CHR 0xC3, CHR 0xB0, CHR 0xC5, CHR 0xB8, CHR 0xE2, CHR 0x80, CHR 0x9C, CHR 0xC5, CHR 0xA0]
     @ '' Key Research Findings**\<newline>''"

definition findingsBullets :: "string list" where
  "findingsBullets =
     [bullet @ '' Service aces have the strongest positive impact (+33.8% per ace)'',
      bullet @ '' Reception errors have the strongest negative impact (-24.3% per error)'',
      bullet @ '' More attack attempts actually hurt performance - efficiency over volume'',
      bullet @ '' Both solo blocks and block assists significantly improve win probability\<newline>'']"

definition practiceFocusHeader :: string where
  "practiceFocusHeader =
     ''**'' @ [CHR 0xC3, CHR 0xB0, CHR 0xC5, CHR 0xB8] @ '' Recommended Practice Focus**\<newline>''"

definition receptionErrorsFocus :: "string list" where
  "receptionErrorsFocus =
     [bullet @ '' Serve-receive drills with pressure situations'',
      bullet @ '' Individual passing technique work'',
      bullet @ '' Communication and coverage patterns'']"

definition serviceAcesFocus :: "string list" where
  "serviceAcesFocus =
     [bullet @ '' Aggressive serving practice with target zones'',
      bullet @ '' Risk/reward analysis for different serve types'',
      bullet @ '' Situational serving strategy'']"

definition attemptsFocus :: "string list" where
  "attemptsFocus =
     [bullet @ '' Shot selection and decision-making drills'',
      bullet @ '' High-percentage attack patterns'',
      bullet @ '' Reading defense and picking spots'']"

definition errorsFocus :: "string list" where
  "errorsFocus =
     [bullet @ '' Ball control and technique refinement'',
      bullet @ '' Reduce unforced errors through focused repetition'',
      bullet @ '' Mental approach to minimize mistakes'']"

definition digsFocus :: "string list" where
  "digsFocus =
     [bullet @ '' Defensive positioning and reading hitters'',
      bullet @ '' Platform control and emergency digs'',
      bullet @ '' Transition from defense to offense'']"

definition blockFocus :: "string list" where
  "blockFocus =
     [bullet @ '' Blocking footwork and timing'',
      bullet @ '' Reading opponent tendencies'',
      bullet @ '' Team blocking coordination'']"

text \<open>All bullet lines of the six practice-focus templates.\<close>

definition practiceFocusBullets :: "string list" where
  "practiceFocusBullets =
     receptionErrorsFocus @ serviceAcesFocus @ attemptsFocus @ errorsFocus @ digsFocus @ blockFocus"

text \<open>
  The four lines pushed for the weakness at position \<open>index\<close>. \<open>ODDS_RATIOS[metric]\<close> is
  \<open>undefined\<close> for a metric outside the table, and the percentage then prints as \<open>NaN\<close>.
\<close>

definition weaknessLines :: "nat \<Rightarrow> Weakness \<Rightarrow> string list" where
  "weaknessLines index weakness =
     (let metricName = formatMetricName (metric weakness);
          impactPercent = toFixed1 \<bar>impact weakness\<bar>;
          orPercent = (case map_of ODDS_RATIOS (metric weakness) of
                         None \<Rightarrow> ''NaN''
                       | Some orValue \<Rightarrow> toFixed1 \<bar>(1 - orValue) * 100\<bar>)
      in [''**Priority '' @ showNat (index + 1) @ '': '' @ metricName @ ''**'',
          ''Your '' @ toFixed1 (val weakness) @ '' vs winning average of ''
            @ toFixed1 (benchmark weakness),
          ''Impact: '' @ impactPercent @ ''% reduction in win probability'',
          ''Research shows each '' @ toLowerCase metricName @ '' changes win odds by ''
            @ orPercent @ ''%\<newline>''])"

text \<open>The two lines pushed for a strength.\<close>

definition strengthLines :: "Strength \<Rightarrow> string list" where
  "strengthLines strength =
     (let metricName = formatMetricName (metric strength);
          impactPercent = toFixed1 (impact strength)
      in [''**'' @ metricName @ '':** '' @ toFixed1 (val strength) @ '' (winning avg: ''
            @ toFixed1 (benchmark strength) @ '')'',
          ''Contributing +'' @ impactPercent @ ''% to win probability\<newline>''])"

text \<open>The lines pushed after the practice-focus header.\<close>

definition practiceFocusLines :: "Recommendations \<Rightarrow> string list" where
  "practiceFocusLines recs =
     (case weaknesses recs of
        [] \<Rightarrow> []
      | topWeakness # _ \<Rightarrow>
          if metric topWeakness = ''receptionErrors'' then receptionErrorsFocus
          else if metric topWeakness = ''serviceAces'' then serviceAcesFocus
          else if metric topWeakness = ''attempts'' then attemptsFocus
          else if metric topWeakness = ''errors'' then errorsFocus
          else if metric topWeakness = ''digs'' then digsFocus
          else if includes_str (metric topWeakness) ''Block'' then blockFocus
          else [])"

text \<open>The array \<open>insights\<close> when the function returns: every push, in order.\<close>

definition insights :: "RawStats \<Rightarrow> (string \<times> Impact) list \<Rightarrow> Recommendations \<Rightarrow> string list" where
  "insights stats imps recs =
     (let totalImpact = foldl (\<lambda>sum i. sum + impact i) 0 (map snd imps)
      in [headerLine]
         @ [if totalImpact > 5 then summaryStrong
            else if totalImpact < - 5 then summaryBelow
            else summaryMixed]
         @ (if length (weaknesses recs) > 0
            then prioritiesHeader
                 # concat (map (\<lambda>(index, weakness). weaknessLines index weakness)
                             (enumerate 0 (weaknesses recs)))
            else [])
         @ (if length (strengths recs) > 0
            then strengthsHeader # concat (map strengthLines (strengths recs))
            else [])
         @ [findingsHeader] @ findingsBullets
         @ [practiceFocusHeader]
         @ practiceFocusLines recs)"

definition generateInsightsText :: "RawStats \<Rightarrow> (string \<times> Impact) list \<Rightarrow> Recommendations \<Rightarrow> string" where
  "generateInsightsText stats imps recs = join ''\<newline>'' (insights stats imps recs)"

subsection \<open>analyzeGame\<close>

text \<open>\<open>stats.totalSets || 3\<close>: 3 when \<open>totalSets\<close> is absent or 0, else \<open>totalSets\<close>.\<close>

definition totalSetsOr3 :: "RawStats \<Rightarrow> real" where
  "totalSetsOr3 stats = (case totalSets stats of None \<Rightarrow> 3 | Some s \<Rightarrow> if s = 0 then 3 else s)"

text \<open>\<open>stats.totalSets > 0 ? (x / stats.totalSets) : 0\<close>.\<close>

definition perSet :: "RawStats \<Rightarrow> real \<Rightarrow> real" where
  "perSet stats x = (case totalSets stats of None \<Rightarrow> 0 | Some s \<Rightarrow> if s > 0 then x / s else 0)"

definition analyzeGame :: "RawStats \<Rightarrow> AnalysisResult option" where
  "analyzeGame stats =
     (case normalizeStats stats (Some (totalSetsOr3 stats)) of
        None \<Rightarrow> None
      | Some normalizedStats \<Rightarrow>
          (let imps = calculateImpacts normalizedStats;
               recs = generateRecommendations imps;
               narrative = generateInsightsText stats imps recs
           in Some \<lparr>normalized = normalizedStats, impacts = imps, recommendations = recs,
                    insightsText = narrative,
                    metrics =
                      \<lparr>killEfficiency =
                         (if killAttempts stats > 0
                          then totalKills stats / killAttempts stats * 100 else 0),
                       acesPerSet = perSet stats (serviceAces stats),
                       blocksPerSet = perSet stats (soloBlocks stats + blockAssists stats),
                       digsPerSet = perSet stats (digs stats),
                       receptionErrorRate = perSet stats (receptionErrors stats),
                       attackErrorRate = perSet stats (attackErrors stats)\<rparr>\<rparr>))"

subsection \<open>Binary64 arithmetic\<close>











subsection \<open>normalizeStats and calculateImpacts in binary64\<close>







subsection \<open>Reading a result; example inputs\<close>


text \<open>The box score of the end-to-end example.\<close>

definition exampleStats :: RawStats where
  "exampleStats =
     \<lparr>totalKills = 50, killAttempts = 100, attackErrors = 10, serviceAces = 8,
      serviceErrors = 12, receptionErrors = 2, digs = 35, soloBlocks = 3,
      blockAssists = 15, totalSets = Some 3\<rparr>"

text \<open>
  A box score all of whose normalized values are the win benchmarks: 350 sets scale every
  count by \<open>1/100\<close>.
\<close>

definition benchmarkStats :: RawStats where
  "benchmarkStats =
     \<lparr>totalKills = 4690, killAttempts = 9620, attackErrors = 1430, serviceAces = 645,
      serviceErrors = 1600, receptionErrors = 371, digs = 3110, soloBlocks = 194,
      blockAssists = 1390, totalSets = Some 350\<rparr>"

section \<open>Properties\<close>

subsection \<open>Impacts\<close>

lemma distinct_ODDS_RATIOS: "distinct (map fst ODDS_RATIOS)"
  by (simp add: ODDS_RATIOS_def)

lemma calculateImpacts_loop_map_of:
  "distinct (map fst tbl) \<Longrightarrow>
   map_of (calculateImpacts_loop ns tbl) m =
     (case map_of tbl m of
        None \<Rightarrow> None
      | Some r \<Rightarrow>
          (case map_of ns m of
             None \<Rightarrow> None
           | Some v \<Rightarrow>
               (case map_of RESEARCH_BENCHMARKS_win m of
                  None \<Rightarrow> None
                | Some b \<Rightarrow>
                    Some \<lparr>impact = (v - b) * ln r * 100 / ln 2, val = v, benchmark = b,
                          deviation = v - b, oddsRatio = r\<rparr>)))"
proof (induction tbl)
  case Nil
  then show ?case by simp
next
  case (Cons a tbl)
  obtain k ratio where a: "a = (k, ratio)" by (cases a)
  from Cons.prems have d: "distinct (map fst tbl)" and k: "map_of tbl k = None"
    by (auto simp: a map_of_eq_None_iff)
  note IH = Cons.IH [OF d]
  show ?case
  proof (cases "m = k")
    case True
    with IH k have "map_of (calculateImpacts_loop ns tbl) k = None" by simp
    with True show ?thesis
      by (simp add: a Let_def split: option.splits)
  next
    case False
    with IH show ?thesis
      by (simp add: a Let_def split: option.splits)
  qed
qed

lemma calculateImpacts_loop_keys:
  "map fst (calculateImpacts_loop ns tbl) =
     filter (\<lambda>k. map_of ns k \<noteq> None \<and> map_of RESEARCH_BENCHMARKS_win k \<noteq> None) (map fst tbl)"
  by (induction ns tbl rule: calculateImpacts_loop.induct)
     (auto simp: Let_def split: option.splits)

lemma win_defined_on_ODDS_RATIOS:
  assumes "map_of ODDS_RATIOS m = Some r"
  shows "\<exists>b. map_of RESEARCH_BENCHMARKS_win m = Some b"
proof -
  from assms have "m \<in> set (map fst ODDS_RATIOS)"
    by (metis map_of_eq_None_iff option.distinct(1) set_map)
  then have "m \<in> set (map fst RESEARCH_BENCHMARKS_win)"
    by (simp add: ODDS_RATIOS_def RESEARCH_BENCHMARKS_win_def)
  then show ?thesis
    by (metis map_of_eq_None_iff not_Some_eq set_map)
qed

text \<open>
  C1. For every metric present in both the normalized stats and the odds-ratio table,
  \<open>calculateImpacts\<close> returns an entry for it whose deviation is the normalized value minus
  the win benchmark and whose impact is \<open>deviation * ln(oddsRatio) * 100 / ln(2)\<close>; when the
  normalized value equals the win benchmark, the impact is exactly 0.
\<close>

theorem calculateImpacts_entry:
  assumes "map_of normalizedStats m = Some v" and "map_of ODDS_RATIOS m = Some r"
  shows "\<exists>b e. map_of RESEARCH_BENCHMARKS_win m = Some b
           \<and> map_of (calculateImpacts normalizedStats) m = Some e
           \<and> val e = v \<and> benchmark e = b \<and> oddsRatio e = r
           \<and> deviation e = v - b
           \<and> impact e = deviation e * ln r * 100 / ln 2
           \<and> (v = b \<longrightarrow> impact e = 0)"
proof -
  from assms(2) obtain b where b: "map_of RESEARCH_BENCHMARKS_win m = Some b"
    using win_defined_on_ODDS_RATIOS by blast
  have "map_of (calculateImpacts normalizedStats) m =
          Some \<lparr>impact = (v - b) * ln r * 100 / ln 2, val = v, benchmark = b,
                deviation = v - b, oddsRatio = r\<rparr>"
    unfolding calculateImpacts_def
    by (simp add: calculateImpacts_loop_map_of [OF distinct_ODDS_RATIOS] assms b)
  with b show ?thesis by simp
qed

theorem calculateImpacts_entry_witness:
  "\<exists>e. map_of (calculateImpacts [(''digs'', 31.1), (''aces'', 2)]) ''digs'' = Some e
       \<and> deviation e = 0 \<and> impact e = 0 \<and> oddsRatio e = 1.152"
  using calculateImpacts_entry [of "[(''digs'', 31.1), (''aces'', 2)]" "''digs''" "31.1" "1.152"]
  by (auto simp add: ODDS_RATIOS_def RESEARCH_BENCHMARKS_win_def)

subsection \<open>Normalization\<close>

text \<open>
  C2. For every raw box score and every set count \<open>s > 0\<close>, every field of
  \<open>normalizeStats(stats, s)\<close> is the corresponding raw field times \<open>3.5 / s\<close>, unclamped
  (\<open>kills\<close> from \<open>totalKills\<close>, \<open>errors\<close> from \<open>attackErrors\<close>, \<open>attempts\<close> from
  \<open>killAttempts\<close>, the others under their own names); for \<open>s = 3.5\<close> every field is the raw
  field itself.
\<close>

theorem normalizeStats_scale:
  assumes "0 < s"
  shows "normalizeStats stats (Some s) =
           Some [(''kills'', totalKills stats * (3.5 / s)),
                 (''errors'', attackErrors stats * (3.5 / s)),
                 (''attempts'', killAttempts stats * (3.5 / s)),
                 (''serviceAces'', serviceAces stats * (3.5 / s)),
                 (''serviceErrors'', serviceErrors stats * (3.5 / s)),
                 (''receptionErrors'', receptionErrors stats * (3.5 / s)),
                 (''digs'', digs stats * (3.5 / s)),
                 (''soloBlocks'', soloBlocks stats * (3.5 / s)),
                 (''blockAssists'', blockAssists stats * (3.5 / s))]
         \<and> normalizeStats stats (Some 3.5) =
             Some [(''kills'', totalKills stats), (''errors'', attackErrors stats),
                   (''attempts'', killAttempts stats), (''serviceAces'', serviceAces stats),
                   (''serviceErrors'', serviceErrors stats),
                   (''receptionErrors'', receptionErrors stats), (''digs'', digs stats),
                   (''soloBlocks'', soloBlocks stats), (''blockAssists'', blockAssists stats)]"
  using assms by (simp add: normalizeStats_def Let_def)

theorem normalizeStats_scale_witness:
  "map_option (\<lambda>n. map_of n ''kills'')
     (normalizeStats exampleStats (Some 7)) = Some (Some 25)
   \<and> map_option (\<lambda>n. map_of n ''digs'')
     (normalizeStats exampleStats (Some 3.5)) = Some (Some 35)"
  using normalizeStats_scale [of 7 exampleStats]
     normalizeStats_scale [of "3.5" exampleStats]
  by (simp add: exampleStats_def)

subsection \<open>The keys of the impacts object\<close>

lemma totalSetsOr3_nonzero: "totalSetsOr3 stats \<noteq> 0"
  by (simp add: totalSetsOr3_def split: option.splits)

lemma analyzeGame_Some:
  "\<exists>r. analyzeGame stats = Some r
     \<and> normalizeStats stats (Some (totalSetsOr3 stats)) = Some (normalized r)
     \<and> impacts r = calculateImpacts (normalized r)
     \<and> recommendations r = generateRecommendations (impacts r)
     \<and> insightsText r = generateInsightsText stats (impacts r) (recommendations r)"
  using totalSetsOr3_nonzero [of stats]
  by (simp add: analyzeGame_def normalizeStats_def Let_def)

lemma normalizeStats_keys:
  "normalizeStats stats sets_arg = Some n \<Longrightarrow>
   map fst n = [''kills'', ''errors'', ''attempts'', ''serviceAces'', ''serviceErrors'',
                ''receptionErrors'', ''digs'', ''soloBlocks'', ''blockAssists'']"
  by (auto simp add: normalizeStats_def Let_def split: if_splits)

lemma calculateImpacts_keys_normalized:
  assumes "normalizeStats stats sets_arg = Some n"
  shows "map fst (calculateImpacts n) =
           [''kills'', ''errors'', ''attempts'', ''serviceAces'', ''serviceErrors'',
            ''receptionErrors'', ''digs'', ''soloBlocks'', ''blockAssists'']"
  using assms
  by (auto simp add: calculateImpacts_def calculateImpacts_loop_keys normalizeStats_def Let_def
        ODDS_RATIOS_def RESEARCH_BENCHMARKS_win_def split: if_splits)

text \<open>
  C9. For every input, \<open>analyzeGame\<close> returns, \<open>normalizeStats\<close> has produced exactly the nine
  keys kills, errors, attempts, serviceAces, serviceErrors, receptionErrors, digs,
  soloBlocks, blockAssists, and the impacts object has exactly these keys: \<open>blockErrors\<close>,
  though a key of both benchmark tables and of the odds-ratio table, is never one of them.
\<close>

theorem analyzeGame_impact_keys:
  "\<exists>r. analyzeGame stats = Some r
     \<and> map fst (normalized r) =
         [''kills'', ''errors'', ''attempts'', ''serviceAces'', ''serviceErrors'',
          ''receptionErrors'', ''digs'', ''soloBlocks'', ''blockAssists'']
     \<and> map fst (impacts r) = map fst (normalized r)
     \<and> ''blockErrors'' \<notin> set (map fst (impacts r))
     \<and> ''blockErrors'' \<in> set (map fst RESEARCH_BENCHMARKS_win)
     \<and> ''blockErrors'' \<in> set (map fst RESEARCH_BENCHMARKS_loss)
     \<and> ''blockErrors'' \<in> set (map fst ODDS_RATIOS)
     \<and> set (map fst (impacts r)) \<subseteq>
         {''kills'', ''errors'', ''attempts'', ''serviceAces'', ''serviceErrors'',
          ''receptionErrors'', ''digs'', ''soloBlocks'', ''blockAssists''}"
proof -
  obtain r where r: "analyzeGame stats = Some r"
      "normalizeStats stats (Some (totalSetsOr3 stats)) = Some (normalized r)"
      "impacts r = calculateImpacts (normalized r)"
    using analyzeGame_Some by blast
  note n = normalizeStats_keys [OF r(2)]
  note i = calculateImpacts_keys_normalized [OF r(2)]
  have t: "''blockErrors'' \<in> set (map fst RESEARCH_BENCHMARKS_win)"
      "''blockErrors'' \<in> set (map fst RESEARCH_BENCHMARKS_loss)"
      "''blockErrors'' \<in> set (map fst ODDS_RATIOS)"
    by (simp_all add: RESEARCH_BENCHMARKS_win_def RESEARCH_BENCHMARKS_loss_def ODDS_RATIOS_def)
  from r(1) t show ?thesis
    by (intro exI [of _ r]) (simp only: r(3) n i, simp)
qed

theorem analyzeGame_impact_keys_witness:
  "map_option (\<lambda>r. map fst (impacts r))
     (analyzeGame exampleStats)
   = Some [''kills'', ''errors'', ''attempts'', ''serviceAces'', ''serviceErrors'',
          ''receptionErrors'', ''digs'', ''soloBlocks'', ''blockAssists'']"
  using analyzeGame_impact_keys [of exampleStats]
  by auto

subsection \<open>Performance levels\<close>

lemma benchmark_keys:
  assumes "map_of RESEARCH_BENCHMARKS_win m = Some w"
  shows "m = ''kills'' \<or> m = ''errors'' \<or> m = ''attempts'' \<or> m = ''serviceAces''
       \<or> m = ''serviceErrors'' \<or> m = ''receptionErrors'' \<or> m = ''digs''
       \<or> m = ''soloBlocks'' \<or> m = ''blockAssists'' \<or> m = ''blockErrors''"
proof -
  from assms have "m \<in> set (map fst RESEARCH_BENCHMARKS_win)"
    by (metis map_of_eq_None_iff option.distinct(1) set_map)
  then show ?thesis
    by (simp add: RESEARCH_BENCHMARKS_win_def)
qed

text \<open>Except for serviceErrors, the win benchmark is the better one of the two.\<close>

lemma benchmark_order:
  assumes "map_of RESEARCH_BENCHMARKS_win m = Some w"
      and "map_of RESEARCH_BENCHMARKS_loss m = Some l"
      and "m \<noteq> ''serviceErrors''"
  shows "if m \<in> set lowerIsBetter then w < l else l < w"
  using benchmark_keys [OF assms(1)] assms
  by (elim disjE; simp add: RESEARCH_BENCHMARKS_win_def RESEARCH_BENCHMARKS_loss_def lowerIsBetter_def)

lemma getPerformanceLevel_unfold:
  assumes "map_of RESEARCH_BENCHMARKS_win m = Some w"
      and "map_of RESEARCH_BENCHMARKS_loss m = Some l"
  shows "getPerformanceLevel x m =
      (if m \<in> set lowerIsBetter
       then (if x \<le> w then ''excellent'' else if x \<le> l then ''good'' else ''needs_improvement'')
       else (if x \<ge> w then ''excellent'' else if x \<ge> l then ''good'' else ''needs_improvement''))"
  by (simp add: getPerformanceLevel_def Let_def num_le_def num_ge_def assms)

lemma set_lowerIsBetter:
  "set lowerIsBetter =
     {''errors'', ''attempts'', ''serviceErrors'', ''receptionErrors'', ''blockErrors''}"
  by (simp add: lowerIsBetter_def)

text \<open>
  C6, as the code has it. For every metric of the benchmark tables and every value,
  \<open>getPerformanceLevel\<close> returns one of the three labels, by the bands of the win and loss
  benchmarks, lower-is-better for errors, attempts, serviceErrors, receptionErrors and
  blockErrors; the win benchmark itself is \<open>excellent\<close>. For every metric other than
  serviceErrors the loss benchmark itself is \<open>good\<close> (so for receptionErrors), and so is
  every number strictly between the two benchmarks.
\<close>

theorem getPerformanceLevel_bands:
  assumes "map_of RESEARCH_BENCHMARKS_win m = Some w"
      and "map_of RESEARCH_BENCHMARKS_loss m = Some l"
  shows "getPerformanceLevel v m \<in> {''excellent'', ''good'', ''needs_improvement''}
       \<and> (m \<in> {''errors'', ''attempts'', ''serviceErrors'', ''receptionErrors'', ''blockErrors''} \<longrightarrow>
            getPerformanceLevel v m =
              (if v \<le> w then ''excellent'' else if v \<le> l then ''good'' else ''needs_improvement''))
       \<and> (m \<notin> {''errors'', ''attempts'', ''serviceErrors'', ''receptionErrors'', ''blockErrors''} \<longrightarrow>
            getPerformanceLevel v m =
              (if v \<ge> w then ''excellent'' else if v \<ge> l then ''good'' else ''needs_improvement''))
       \<and> getPerformanceLevel w m = ''excellent''
       \<and> (m \<noteq> ''serviceErrors'' \<longrightarrow> getPerformanceLevel l m = ''good'')
       \<and> (m \<noteq> ''serviceErrors'' \<and> min w l < v \<and> v < max w l \<longrightarrow> getPerformanceLevel v m = ''good'')
       \<and> getPerformanceLevel 6.17 ''receptionErrors'' = ''good''"
proof -
  note bands = getPerformanceLevel_unfold [OF assms]
  note order = benchmark_order [OF assms]
  have c1: "getPerformanceLevel v m \<in> {''excellent'', ''good'', ''needs_improvement''}"
    unfolding bands by simp
  have c2: "m \<in> {''errors'', ''attempts'', ''serviceErrors'', ''receptionErrors'', ''blockErrors''} \<longrightarrow>
            getPerformanceLevel v m =
              (if v \<le> w then ''excellent'' else if v \<le> l then ''good'' else ''needs_improvement'')"
    unfolding bands set_lowerIsBetter [symmetric] by simp
  have c3: "m \<notin> {''errors'', ''attempts'', ''serviceErrors'', ''receptionErrors'', ''blockErrors''} \<longrightarrow>
            getPerformanceLevel v m =
              (if v \<ge> w then ''excellent'' else if v \<ge> l then ''good'' else ''needs_improvement'')"
    unfolding bands set_lowerIsBetter [symmetric] by simp
  have c4: "getPerformanceLevel w m = ''excellent''"
    unfolding bands by simp
  have c5: "m \<noteq> ''serviceErrors'' \<longrightarrow> getPerformanceLevel l m = ''good''"
  proof
    assume "m \<noteq> ''serviceErrors''"
    from order [OF this] show "getPerformanceLevel l m = ''good''"
      unfolding bands by (cases "m \<in> set lowerIsBetter") simp_all
  qed
  have c6: "m \<noteq> ''serviceErrors'' \<and> min w l < v \<and> v < max w l \<longrightarrow>
      getPerformanceLevel v m = ''good''"
  proof
    assume a: "m \<noteq> ''serviceErrors'' \<and> min w l < v \<and> v < max w l"
    then have "m \<noteq> ''serviceErrors''" by (rule conjunct1)
    from order [OF this] a show "getPerformanceLevel v m = ''good''"
      unfolding bands by (cases "m \<in> set lowerIsBetter") simp_all
  qed
  have c7: "getPerformanceLevel 6.17 ''receptionErrors'' = ''good''"
    by (simp add: getPerformanceLevel_def Let_def num_le_def lowerIsBetter_def
        RESEARCH_BENCHMARKS_win_def RESEARCH_BENCHMARKS_loss_def)
  from c1 c2 c3 c4 c5 c6 c7 show ?thesis
    by (intro conjI)
qed

theorem getPerformanceLevel_bands_witness:
  "getPerformanceLevel 5 ''receptionErrors'' = ''good''
   \<and> getPerformanceLevel 3.71 ''receptionErrors'' = ''excellent''
   \<and> getPerformanceLevel 6.17 ''receptionErrors'' = ''good''"
  using getPerformanceLevel_bands [of "''receptionErrors''" "3.71" "6.17" 5]
  by (simp add: RESEARCH_BENCHMARKS_win_def RESEARCH_BENCHMARKS_loss_def)

text \<open>
  C6, where the claim fails.
  For serviceErrors the win benchmark (16.0) lies above the loss benchmark (15.5), and the
  metric is lower-is-better: the loss benchmark itself, and every value between the two,
  is \<open>excellent\<close>.
\<close>

theorem getPerformanceLevel_serviceErrors_counterexample:
  "map_of RESEARCH_BENCHMARKS_loss ''serviceErrors'' = Some 15.5
   \<and> getPerformanceLevel 15.5 ''serviceErrors'' = ''excellent''
   \<and> getPerformanceLevel 15.5 ''serviceErrors'' \<noteq> ''good''
   \<and> getPerformanceLevel 15.8 ''serviceErrors'' = ''excellent''"
  by (simp add: getPerformanceLevel_def Let_def num_le_def lowerIsBetter_def
      RESEARCH_BENCHMARKS_win_def RESEARCH_BENCHMARKS_loss_def)

subsection \<open>The set count of analyzeGame\<close>

text \<open>
  C7, as the code has it. For every input, \<open>analyzeGame\<close> normalizes with the set count
  \<open>stats.totalSets || 3\<close>: the default 3 when \<open>totalSets\<close> is absent or 0, and \<open>totalSets\<close>
  itself when it is positive. The divisor is never 0, so \<open>analyzeGame\<close> always returns a
  result; and the set count is positive whenever \<open>totalSets\<close> is absent or not negative.
\<close>

theorem analyzeGame_set_count:
  "\<exists>r. analyzeGame stats = Some r
     \<and> normalizeStats stats (Some (totalSetsOr3 stats)) = Some (normalized r)
     \<and> map_of (normalized r) ''kills'' = Some (totalKills stats * (3.5 / totalSetsOr3 stats))
     \<and> totalSetsOr3 stats \<noteq> 0
     \<and> (totalSets stats = None \<or> totalSets stats = Some 0 \<longrightarrow> totalSetsOr3 stats = 3)
     \<and> (\<forall>s. totalSets stats = Some s \<and> 0 < s \<longrightarrow> totalSetsOr3 stats = s)
     \<and> (totalSets stats = None \<or> (\<exists>s. totalSets stats = Some s \<and> 0 \<le> s)
          \<longrightarrow> 0 < totalSetsOr3 stats)"
proof -
  obtain r where r: "analyzeGame stats = Some r"
      "normalizeStats stats (Some (totalSetsOr3 stats)) = Some (normalized r)"
    using analyzeGame_Some by blast
  have k: "map_of (normalized r) ''kills'' = Some (totalKills stats * (3.5 / totalSetsOr3 stats))"
    using r(2) [symmetric] totalSetsOr3_nonzero [of stats]
    by (simp add: normalizeStats_def Let_def)
  have d: "(totalSets stats = None \<or> totalSets stats = Some 0 \<longrightarrow> totalSetsOr3 stats = 3)
     \<and> (\<forall>s. totalSets stats = Some s \<and> 0 < s \<longrightarrow> totalSetsOr3 stats = s)
     \<and> (totalSets stats = None \<or> (\<exists>s. totalSets stats = Some s \<and> 0 \<le> s)
          \<longrightarrow> 0 < totalSetsOr3 stats)"
    by (auto simp add: totalSetsOr3_def)
  from r k d totalSetsOr3_nonzero [of stats] show ?thesis
    by blast
qed

theorem analyzeGame_set_count_witness:
  "totalSetsOr3 (exampleStats\<lparr>totalSets := None\<rparr>) = 3
   \<and> totalSetsOr3 (exampleStats\<lparr>totalSets := Some 0\<rparr>) = 3
   \<and> totalSetsOr3 exampleStats = 3
   \<and> totalSetsOr3 (exampleStats\<lparr>totalSets := Some 5\<rparr>) = 5
   \<and> map_option (\<lambda>r. map_of (normalized r) ''kills'')
        (analyzeGame (exampleStats\<lparr>totalSets := Some 0\<rparr>)) = Some (Some (50 * (3.5 / 3)))"
  using analyzeGame_set_count [of "exampleStats\<lparr>totalSets := None\<rparr>"]
    analyzeGame_set_count [of "exampleStats\<lparr>totalSets := Some 0\<rparr>"]
    analyzeGame_set_count [of "exampleStats\<lparr>totalSets := Some 5\<rparr>"]
    analyzeGame_set_count [of "exampleStats"]
  by (auto simp add: exampleStats_def)

text \<open>
  C7, where the claim fails.
  A negative \<open>totalSets\<close> is truthy in JavaScript and is not replaced: with
  \<open>totalSets = -2\<close> the box score is scaled by \<open>3.5 / -2\<close>, and 10 kills normalize to
  \<open>-17.5\<close>.
\<close>

theorem analyzeGame_negative_sets_counterexample:
  "totalSetsOr3 (exampleStats\<lparr>totalKills := 10, totalSets := Some (- 2)\<rparr>) = - 2
   \<and> map_option (\<lambda>r. map_of (normalized r) ''kills'')
        (analyzeGame (exampleStats\<lparr>totalKills := 10, totalSets := Some (- 2)\<rparr>))
       = Some (Some (- 17.5))"
  by (simp add: analyzeGame_def normalizeStats_def totalSetsOr3_def exampleStats_def Let_def)

subsection \<open>Logarithms\<close>

lemma ln2_pos: "0 < ln (2::real)"
  by simp

text \<open>Bounds on the logarithms of the odds ratios, from the elementary bounds on \<open>ln\<close>.\<close>

lemma ln_lower_1255: "0.189 \<le> ln (1.255::real)"
  using ln_one_plus_pos_lower_bound [of "0.255::real"] by (simp add: power2_eq_square)

lemma ln_bounds_1152: "0.128 \<le> ln (1.152::real)" "ln (1.152::real) \<le> 0.152"
  using ln_one_plus_pos_lower_bound [of "0.152::real"] ln_add_one_self_le_self [of "0.152::real"]
  by (simp_all add: power2_eq_square)

lemma ln_bounds_1338: "0.223 \<le> ln (1.338::real)" "ln (1.338::real) \<le> 0.338"
  using ln_one_plus_pos_lower_bound [of "0.338::real"] ln_add_one_self_le_self [of "0.338::real"]
  by (simp_all add: power2_eq_square)

lemma ln_upper_1257: "ln (1.257::real) \<le> 0.257"
  using ln_add_one_self_le_self [of "0.257::real"] by simp

lemma ln_upper_1126: "ln (1.126::real) \<le> 0.126"
  using ln_add_one_self_le_self [of "0.126::real"] by simp

lemma ln_lower_0921: "- 0.092 \<le> ln (0.921::real)"
  using ln_one_minus_pos_lower_bound [of "0.079::real"] by (simp add: power2_eq_square)

lemma ln_lower_0992: "- 0.009 \<le> ln (0.992::real)"
  using ln_one_minus_pos_lower_bound [of "0.008::real"] by (simp add: power2_eq_square)

lemma ln_lower_0757: "- 0.362 \<le> ln (0.757::real)"
  using ln_one_minus_pos_lower_bound [of "0.243::real"] by (simp add: power2_eq_square)


subsection \<open>Binary64 rounding\<close>
























subsection \<open>Monotonicity of the impacts in binary64\<close>




























subsection \<open>Ranking\<close>

lemma metric_weaknessOf: "metric (weaknessOf e) = fst e"
  by (simp add: weaknessOf_def)

lemma metric_strengthOf: "metric (strengthOf e) = fst e"
  by (simp add: strengthOf_def)

lemma generateRecommendations_fields:
  "allImpacts (generateRecommendations imps) = sort_key (\<lambda>e. - \<bar>impact (snd e)\<bar>) imps"
  "weaknesses (generateRecommendations imps) =
     map weaknessOf (take 3 (filter (\<lambda>e. impact (snd e) < - 1)
       (allImpacts (generateRecommendations imps))))"
  "strengths (generateRecommendations imps) =
     map strengthOf (take 2 (filter (\<lambda>e. impact (snd e) > 1)
       (allImpacts (generateRecommendations imps))))"
  by (simp_all add: generateRecommendations_def Let_def)

lemma weakness_entry:
  assumes "m \<in> set (map metric (weaknesses (generateRecommendations imps)))"
  shows "\<exists>d. (m, d) \<in> set imps \<and> impact d < - 1"
proof -
  from assms obtain e where
    e: "e \<in> set (take 3 (filter (\<lambda>e. impact (snd e) < - 1)
          (sort_key (\<lambda>e. - \<bar>impact (snd e)\<bar>) imps)))" and m: "m = fst e"
    by (auto simp add: generateRecommendations_fields metric_weaknessOf)
  from e have "e \<in> set imps \<and> impact (snd e) < - 1"
    by (auto dest: in_set_takeD)
  with m show ?thesis
    by (cases e) auto
qed

lemma strength_entry:
  assumes "m \<in> set (map metric (strengths (generateRecommendations imps)))"
  shows "\<exists>d. (m, d) \<in> set imps \<and> impact d > 1"
proof -
  from assms obtain e where
    e: "e \<in> set (take 2 (filter (\<lambda>e. impact (snd e) > 1)
          (sort_key (\<lambda>e. - \<bar>impact (snd e)\<bar>) imps)))" and m: "m = fst e"
    by (auto simp add: generateRecommendations_fields metric_strengthOf)
  from e have "e \<in> set imps \<and> impact (snd e) > 1"
    by (auto dest: in_set_takeD)
  with m show ?thesis
    by (cases e) auto
qed

text \<open>
  C3. For every impacts object (its keys distinct, as the keys of an object are),
  \<open>generateRecommendations\<close> sorts all entries by descending \<open>|impact|\<close>: \<open>allImpacts\<close> is a
  rearrangement of the entries in that order. The weaknesses are the first at most 3
  entries, in that order, whose impact is below \<open>-1\<close>; the strengths are the first at most 2
  whose impact is above \<open>1\<close>. So the weaknesses are never more than 3, the strengths never
  more than 2, and no metric is in both lists.
\<close>

theorem generateRecommendations_ranking:
  assumes "distinct (map fst imps)"
  shows "mset (allImpacts (generateRecommendations imps)) = mset imps
       \<and> sorted_wrt (\<lambda>a b. \<bar>impact (snd a)\<bar> \<ge> \<bar>impact (snd b)\<bar>)
            (allImpacts (generateRecommendations imps))
       \<and> weaknesses (generateRecommendations imps) =
            map weaknessOf (take 3 (filter (\<lambda>e. impact (snd e) < - 1)
              (allImpacts (generateRecommendations imps))))
       \<and> strengths (generateRecommendations imps) =
            map strengthOf (take 2 (filter (\<lambda>e. impact (snd e) > 1)
              (allImpacts (generateRecommendations imps))))
       \<and> length (weaknesses (generateRecommendations imps)) \<le> 3
       \<and> length (strengths (generateRecommendations imps)) \<le> 2
       \<and> set (map metric (weaknesses (generateRecommendations imps)))
            \<inter> set (map metric (strengths (generateRecommendations imps))) = {}"
proof -
  let ?r = "generateRecommendations imps"
  have perm: "mset (allImpacts ?r) = mset imps"
    by (simp add: generateRecommendations_fields(1))
  have "sorted (map (\<lambda>e. - \<bar>impact (snd e)\<bar>) (allImpacts ?r))"
    by (simp add: generateRecommendations_fields(1))
  then have ordered: "sorted_wrt (\<lambda>a b. \<bar>impact (snd a)\<bar> \<ge> \<bar>impact (snd b)\<bar>) (allImpacts ?r)"
    by (simp add: sorted_map)
  have len: "length (weaknesses ?r) \<le> 3" "length (strengths ?r) \<le> 2"
    by (simp_all add: generateRecommendations_fields(2,3))
  have disjoint: "set (map metric (weaknesses ?r)) \<inter> set (map metric (strengths ?r)) = {}"
  proof (rule ccontr)
    assume "\<not> ?thesis"
    then obtain m where "m \<in> set (map metric (weaknesses ?r))"
        and "m \<in> set (map metric (strengths ?r))"
      by blast
    then obtain d d' where d: "(m, d) \<in> set imps" "impact d < - 1"
        and d': "(m, d') \<in> set imps" "impact d' > 1"
      using weakness_entry strength_entry by blast
    from assms d(1) d'(1) have "d = d'"
      by (rule eq_key_imp_eq_value)
    with d(2) d'(2) show False by simp
  qed
  from perm ordered len disjoint generateRecommendations_fields(2,3) [of imps]
  show ?thesis
    by (intro conjI)
qed

theorem generateRecommendations_ranking_witness:
  "distinct (map fst
     [(''digs'', \<lparr>impact = 2, val = 33, benchmark = 31.1, deviation = 1.9, oddsRatio = 1.152\<rparr>),
      (''kills'', \<lparr>impact = - 7, val = 46, benchmark = 46.9, deviation = - 0.9, oddsRatio = 1.255\<rparr>),
      (''errors'', \<lparr>impact = - 2, val = 15, benchmark = 14.3, deviation = 0.7, oddsRatio = 0.921\<rparr>),
      (''attempts'', \<lparr>impact = 0.5, val = 96, benchmark = 96.2, deviation = - 0.2, oddsRatio = 0.881\<rparr>),
      (''serviceAces'', \<lparr>impact = 10, val = 7, benchmark = 6.45, deviation = 0.55, oddsRatio = 1.338\<rparr>)])
   \<and> map fst (allImpacts (generateRecommendations
     [(''digs'', \<lparr>impact = 2, val = 33, benchmark = 31.1, deviation = 1.9, oddsRatio = 1.152\<rparr>),
      (''kills'', \<lparr>impact = - 7, val = 46, benchmark = 46.9, deviation = - 0.9, oddsRatio = 1.255\<rparr>),
      (''errors'', \<lparr>impact = - 2, val = 15, benchmark = 14.3, deviation = 0.7, oddsRatio = 0.921\<rparr>),
      (''attempts'', \<lparr>impact = 0.5, val = 96, benchmark = 96.2, deviation = - 0.2, oddsRatio = 0.881\<rparr>),
      (''serviceAces'', \<lparr>impact = 10, val = 7, benchmark = 6.45, deviation = 0.55, oddsRatio = 1.338\<rparr>)]))
     = [''serviceAces'', ''kills'', ''digs'', ''errors'', ''attempts'']
   \<and> map metric (weaknesses (generateRecommendations
     [(''digs'', \<lparr>impact = 2, val = 33, benchmark = 31.1, deviation = 1.9, oddsRatio = 1.152\<rparr>),
      (''kills'', \<lparr>impact = - 7, val = 46, benchmark = 46.9, deviation = - 0.9, oddsRatio = 1.255\<rparr>),
      (''errors'', \<lparr>impact = - 2, val = 15, benchmark = 14.3, deviation = 0.7, oddsRatio = 0.921\<rparr>),
      (''attempts'', \<lparr>impact = 0.5, val = 96, benchmark = 96.2, deviation = - 0.2, oddsRatio = 0.881\<rparr>),
      (''serviceAces'', \<lparr>impact = 10, val = 7, benchmark = 6.45, deviation = 0.55, oddsRatio = 1.338\<rparr>)]))
     = [''kills'', ''errors'']
   \<and> map metric (strengths (generateRecommendations
     [(''digs'', \<lparr>impact = 2, val = 33, benchmark = 31.1, deviation = 1.9, oddsRatio = 1.152\<rparr>),
      (''kills'', \<lparr>impact = - 7, val = 46, benchmark = 46.9, deviation = - 0.9, oddsRatio = 1.255\<rparr>),
      (''errors'', \<lparr>impact = - 2, val = 15, benchmark = 14.3, deviation = 0.7, oddsRatio = 0.921\<rparr>),
      (''attempts'', \<lparr>impact = 0.5, val = 96, benchmark = 96.2, deviation = - 0.2, oddsRatio = 0.881\<rparr>),
      (''serviceAces'', \<lparr>impact = 10, val = 7, benchmark = 6.45, deviation = 0.55, oddsRatio = 1.338\<rparr>)]))
     = [''serviceAces'', ''digs'']"
  using generateRecommendations_ranking [of
     "[(''digs'', \<lparr>impact = 2, val = 33, benchmark = 31.1, deviation = 1.9, oddsRatio = 1.152\<rparr>),
      (''kills'', \<lparr>impact = - 7, val = 46, benchmark = 46.9, deviation = - 0.9, oddsRatio = 1.255\<rparr>),
      (''errors'', \<lparr>impact = - 2, val = 15, benchmark = 14.3, deviation = 0.7, oddsRatio = 0.921\<rparr>),
      (''attempts'', \<lparr>impact = 0.5, val = 96, benchmark = 96.2, deviation = - 0.2, oddsRatio = 0.881\<rparr>),
      (''serviceAces'', \<lparr>impact = 10, val = 7, benchmark = 6.45, deviation = 0.55, oddsRatio = 1.338\<rparr>)]"]
  by (simp add: generateRecommendations_def Let_def weaknessOf_def strengthOf_def)

subsection \<open>The narrative\<close>

lemma join_suffix_last: "ls \<noteq> [] \<Longrightarrow> suffix (last ls) (join sep ls)"
  by (induction sep ls rule: join.induct) (auto simp add: suffix_append)

text \<open>Every bullet line of a practice-focus template opens with the bullet mark.\<close>

lemma practiceFocusBullets_hd:
  "b \<in> set practiceFocusBullets \<Longrightarrow> hd b = CHR 0xC3"
  by (auto simp add: practiceFocusBullets_def receptionErrorsFocus_def serviceAcesFocus_def
      attemptsFocus_def errorsFocus_def digsFocus_def blockFocus_def bullet_def)

lemma weaknessLines_hd:
  "l \<in> set (weaknessLines i w) \<Longrightarrow> hd l \<noteq> CHR 0xC3"
  by (auto simp add: weaknessLines_def Let_def)

lemma strengthLines_hd:
  "l \<in> set (strengthLines s) \<Longrightarrow> hd l \<noteq> CHR 0xC3"
  by (auto simp add: strengthLines_def Let_def)

lemma fixed_lines_hd:
  "hd headerLine \<noteq> CHR 0xC3" "hd summaryStrong \<noteq> CHR 0xC3" "hd summaryBelow \<noteq> CHR 0xC3"
  "hd summaryMixed \<noteq> CHR 0xC3" "hd prioritiesHeader \<noteq> CHR 0xC3"
  "hd strengthsHeader \<noteq> CHR 0xC3" "hd findingsHeader \<noteq> CHR 0xC3"
  "hd practiceFocusHeader \<noteq> CHR 0xC3"
  by (simp_all add: headerLine_def summaryStrong_def summaryBelow_def summaryMixed_def
      prioritiesHeader_def strengthsHeader_def findingsHeader_def practiceFocusHeader_def)

lemma findingsBullets_not_focus:
  "l \<in> set findingsBullets \<Longrightarrow> l \<notin> set practiceFocusBullets"
  by (auto simp add: findingsBullets_def practiceFocusBullets_def receptionErrorsFocus_def
      serviceAcesFocus_def attemptsFocus_def errorsFocus_def digsFocus_def blockFocus_def
      bullet_def)

text \<open>
  The array is everything pushed up to and including the practice-focus header, followed
  by the lines of the selected template.
\<close>

lemma insights_split:
  "\<exists>pre. insights stats imps recs = pre @ [practiceFocusHeader] @ practiceFocusLines recs
     \<and> (\<forall>l \<in> set pre. l \<notin> set practiceFocusBullets)"
proof -
  define pre where "pre =
     [headerLine]
     @ [if foldl (\<lambda>sum i. sum + impact i) 0 (map snd imps) > 5 then summaryStrong
        else if foldl (\<lambda>sum i. sum + impact i) 0 (map snd imps) < - 5 then summaryBelow
        else summaryMixed]
     @ (if length (weaknesses recs) > 0
        then prioritiesHeader
             # concat (map (\<lambda>(index, weakness). weaknessLines index weakness)
                         (enumerate 0 (weaknesses recs)))
        else [])
     @ (if length (strengths recs) > 0
        then strengthsHeader # concat (map strengthLines (strengths recs))
        else [])
     @ [findingsHeader] @ findingsBullets"
  have eq: "insights stats imps recs = pre @ [practiceFocusHeader] @ practiceFocusLines recs"
    by (simp add: insights_def pre_def Let_def)
  have "l \<notin> set practiceFocusBullets" if "l \<in> set pre" for l
  proof -
    from that have "hd l \<noteq> CHR 0xC3 \<or> l \<in> set findingsBullets"
      unfolding pre_def
      by (auto simp add: fixed_lines_hd weaknessLines_hd strengthLines_hd split: if_splits)
    then show ?thesis
      using practiceFocusBullets_hd findingsBullets_not_focus by blast
  qed
  with eq show ?thesis by blast
qed

lemma practiceFocusHeader_not_bullet: "practiceFocusHeader \<notin> set practiceFocusBullets"
  using practiceFocusBullets_hd fixed_lines_hd(8) by blast

lemma practiceFocusLines_unmatched:
  assumes "weaknesses recs = topWeakness # rest"
      and "metric topWeakness = ''kills'' \<or> metric topWeakness = ''serviceErrors''"
  shows "practiceFocusLines recs = []"
  using assms by (auto simp add: practiceFocusLines_def)

text \<open>
  C10. For every input whose top-ranked weakness has the metric key \<open>kills\<close> or
  \<open>serviceErrors\<close>, none of the six template branches matches: the narrative holds the
  "Recommended Practice Focus" header, as its last line, and no bullet line of any
  practice-focus template.
\<close>

theorem practiceFocus_unmatched_metric:
  assumes "weaknesses recs = topWeakness # rest"
      and "metric topWeakness = ''kills'' \<or> metric topWeakness = ''serviceErrors''"
  shows "practiceFocusLines recs = []
       \<and> practiceFocusHeader \<in> set (insights stats imps recs)
       \<and> last (insights stats imps recs) = practiceFocusHeader
       \<and> set (insights stats imps recs) \<inter> set practiceFocusBullets = {}
       \<and> generateInsightsText stats imps recs = join ''\<newline>'' (insights stats imps recs)
       \<and> suffix practiceFocusHeader (generateInsightsText stats imps recs)"
proof -
  note none = practiceFocusLines_unmatched [OF assms]
  obtain pre where pre: "insights stats imps recs = pre @ [practiceFocusHeader]"
      and clean: "\<forall>l \<in> set pre. l \<notin> set practiceFocusBullets"
    using insights_split [of stats imps recs] none by auto
  have mem: "practiceFocusHeader \<in> set (insights stats imps recs)"
    and lst: "last (insights stats imps recs) = practiceFocusHeader"
    by (simp_all add: pre)
  have disj: "set (insights stats imps recs) \<inter> set practiceFocusBullets = {}"
    using clean practiceFocusHeader_not_bullet by (auto simp add: pre)
  have joined: "generateInsightsText stats imps recs = join ''\<newline>'' (insights stats imps recs)"
    by (simp add: generateInsightsText_def)
  have "suffix (last (insights stats imps recs)) (join ''\<newline>'' (insights stats imps recs))"
    by (rule join_suffix_last) (simp add: pre)
  then have suf: "suffix practiceFocusHeader (generateInsightsText stats imps recs)"
    by (simp add: lst joined)
  from none mem lst disj joined suf show ?thesis
    by (intro conjI)
qed

text \<open>A sole entry below the threshold is the sole weakness.\<close>

lemma sole_weakness:
  assumes "map (\<lambda>e. (fst e, impact (snd e))) imps = projected"
      and "filter (\<lambda>p. snd p < - 1) projected = [(k, i)]"
  shows "\<exists>w. weaknesses (generateRecommendations imps) = [w] \<and> metric w = k"
proof -
  let ?P = "\<lambda>e::string \<times> Impact. impact (snd e) < - 1"
  have "map (\<lambda>e. (fst e, impact (snd e))) (filter ?P imps)
          = filter (\<lambda>p. snd p < - 1) (map (\<lambda>e. (fst e, impact (snd e))) imps)"
    by (simp add: filter_map comp_def)
  with assms have "map (\<lambda>e. (fst e, impact (snd e))) (filter ?P imps) = [(k, i)]"
    by simp
  then obtain e where e: "filter ?P imps = [e]" "fst e = k"
    by auto
  have "filter ?P (sort_key (\<lambda>e. - \<bar>impact (snd e)\<bar>) imps) = [e]"
    by (simp only: filter_sort e(1)) simp
  then have "weaknesses (generateRecommendations imps) = [weaknessOf e]"
    by (simp add: generateRecommendations_def Let_def)
  with e(2) show ?thesis
    by (simp add: metric_weaknessOf)
qed

lemma lowKills_impacts:
  "map_option (\<lambda>r. map (\<lambda>e. (fst e, impact (snd e))) (impacts r))
     (analyzeGame (benchmarkStats\<lparr>totalKills := 4000\<rparr>))
     = Some [(''kills'', (4000 * (3.5 / 350) - 46.9) * ln 1.255 * 100 / ln 2),
             (''errors'', 0), (''attempts'', 0), (''serviceAces'', 0),
             (''serviceErrors'', 0), (''receptionErrors'', 0), (''digs'', 0),
             (''soloBlocks'', 0), (''blockAssists'', 0)]"
  by (simp add: analyzeGame_def normalizeStats_def totalSetsOr3_def benchmarkStats_def Let_def
      calculateImpacts_def ODDS_RATIOS_def RESEARCH_BENCHMARKS_win_def)

lemma lowKills_impact_below: "(4000 * (3.5 / 350) - 46.9) * ln 1.255 * 100 / ln (2::real) < - 1"
proof -
  have "ln (2::real) < 6.9 * ln 1.255 * 100"
    using ln_lower_1255 ln_2_less_1 by simp
  then have "1 < 6.9 * ln 1.255 * 100 / ln (2::real)"
    using ln2_pos by (simp add: pos_less_divide_eq)
  then show ?thesis
    by simp
qed

theorem practiceFocus_unmatched_metric_witness:
  "map_option
     (\<lambda>r. (map metric (weaknesses (recommendations r)),
           practiceFocusLines (recommendations r),
           last (insights (benchmarkStats\<lparr>totalKills := 4000\<rparr>) (impacts r) (recommendations r))
             = practiceFocusHeader,
           suffix practiceFocusHeader (insightsText r)))
     (analyzeGame (benchmarkStats\<lparr>totalKills := 4000\<rparr>))
   = Some ([''kills''], [], True, True)"
proof -
  let ?stats = "benchmarkStats\<lparr>totalKills := 4000\<rparr>"
  obtain r where r: "analyzeGame ?stats = Some r"
      "recommendations r = generateRecommendations (impacts r)"
      "insightsText r = generateInsightsText ?stats (impacts r) (recommendations r)"
    using analyzeGame_Some [of ?stats] by blast
  define iK :: real where "iK = (4000 * (3.5 / 350) - 46.9) * ln 1.255 * 100 / ln 2"
  from lowKills_impacts have proj: "map (\<lambda>e. (fst e, impact (snd e))) (impacts r) =
       [(''kills'', iK), (''errors'', 0), (''attempts'', 0), (''serviceAces'', 0),
        (''serviceErrors'', 0), (''receptionErrors'', 0), (''digs'', 0),
        (''soloBlocks'', 0), (''blockAssists'', 0)]"
    by (simp only: iK_def r(1) option.map option.inject)
  have below: "iK < - 1"
    unfolding iK_def by (rule lowKills_impact_below)
  have "filter (\<lambda>p. snd p < - 1)
       [(''kills'', iK), (''errors'', 0), (''attempts'', 0), (''serviceAces'', 0),
        (''serviceErrors'', 0), (''receptionErrors'', 0), (''digs'', 0),
        (''soloBlocks'', 0), (''blockAssists'', 0::real)] = [(''kills'', iK)]"
    using below by simp
  from sole_weakness [OF proj this]
  obtain w where w: "weaknesses (generateRecommendations (impacts r)) = [w]"
      "metric w = ''kills''"
    by (elim exE conjE)
  from w(2) have k: "metric w = ''kills'' \<or> metric w = ''serviceErrors''" ..
  note unmatched = practiceFocus_unmatched_metric [OF w(1) k, of ?stats "impacts r"]
  note none = unmatched [THEN conjunct1]
  note lst = unmatched [THEN conjunct2, THEN conjunct2, THEN conjunct1]
  note suf = unmatched [THEN conjunct2, THEN conjunct2, THEN conjunct2, THEN conjunct2,
      THEN conjunct2]
  show ?thesis
    by (simp add: r w none lst suf)
qed

lemma no_weakness_in_band:
  assumes "\<forall>e \<in> set imps. - 1 < impact (snd e) \<and> impact (snd e) < 1"
  shows "weaknesses (generateRecommendations imps) = []"
    and "strengths (generateRecommendations imps) = []"
proof -
  have "filter (\<lambda>e. impact (snd e) < - 1) (sort_key (\<lambda>e. - \<bar>impact (snd e)\<bar>) imps) = []"
    using assms by (auto simp add: filter_empty_conv)
  then show "weaknesses (generateRecommendations imps) = []"
    by (simp add: generateRecommendations_def Let_def)
  have "filter (\<lambda>e. impact (snd e) > 1) (sort_key (\<lambda>e. - \<bar>impact (snd e)\<bar>) imps) = []"
    using assms by (auto simp add: filter_empty_conv)
  then show "strengths (generateRecommendations imps) = []"
    by (simp add: generateRecommendations_def Let_def)
qed

text \<open>
  C4, what the code does. When every impact lies strictly between \<open>-1\<close> and \<open>1\<close>, there is
  no weakness and no bullet line of a practice-focus template is rendered, but the
  "Recommended Practice Focus" header is: it is pushed before the test for a weakness, and
  is the last line of the narrative.
\<close>

theorem practiceFocus_header_without_weakness:
  assumes "\<forall>e \<in> set imps. - 1 < impact (snd e) \<and> impact (snd e) < 1"
  shows "weaknesses (generateRecommendations imps) = []
       \<and> practiceFocusHeader \<in> set (insights stats imps (generateRecommendations imps))
       \<and> last (insights stats imps (generateRecommendations imps)) = practiceFocusHeader
       \<and> set (insights stats imps (generateRecommendations imps)) \<inter> set practiceFocusBullets = {}
       \<and> suffix practiceFocusHeader
            (generateInsightsText stats imps (generateRecommendations imps))"
proof -
  let ?recs = "generateRecommendations imps"
  note none = no_weakness_in_band(1) [OF assms]
  then have lines: "practiceFocusLines ?recs = []"
    by (simp add: practiceFocusLines_def)
  obtain pre where pre: "insights stats imps ?recs = pre @ [practiceFocusHeader]"
      and clean: "\<forall>l \<in> set pre. l \<notin> set practiceFocusBullets"
    using insights_split [of stats imps ?recs] lines by auto
  have mem: "practiceFocusHeader \<in> set (insights stats imps ?recs)"
    and lst: "last (insights stats imps ?recs) = practiceFocusHeader"
    by (simp_all add: pre)
  have disj: "set (insights stats imps ?recs) \<inter> set practiceFocusBullets = {}"
    using clean practiceFocusHeader_not_bullet by (auto simp add: pre)
  have "suffix (last (insights stats imps ?recs)) (join ''\<newline>'' (insights stats imps ?recs))"
    by (rule join_suffix_last) (simp add: pre)
  then have suf: "suffix practiceFocusHeader (generateInsightsText stats imps ?recs)"
    by (simp add: lst generateInsightsText_def)
  from none mem lst disj suf show ?thesis
    by (intro conjI)
qed

lemma benchmarkStats_impacts:
  "map_option (\<lambda>r. map (\<lambda>e. (fst e, impact (snd e))) (impacts r)) (analyzeGame benchmarkStats)
     = Some [(''kills'', 0), (''errors'', 0), (''attempts'', 0), (''serviceAces'', 0),
             (''serviceErrors'', 0), (''receptionErrors'', 0), (''digs'', 0),
             (''soloBlocks'', 0), (''blockAssists'', 0)]"
  by (simp add: analyzeGame_def normalizeStats_def totalSetsOr3_def benchmarkStats_def Let_def
      calculateImpacts_def ODDS_RATIOS_def RESEARCH_BENCHMARKS_win_def)

lemma totalImpact_sum_list:
  "foldl (\<lambda>sum i. sum + impact i) a (map snd imps)
     = a + sum_list (map (\<lambda>e. impact (snd e)) imps)"
  by (induction imps arbitrary: a) simp_all

text \<open>With neither a weakness nor a strength, the narrative is eight fixed lines.\<close>

lemma insights_without_recommendations:
  assumes "weaknesses recs = []" and "strengths recs = []"
      and "sum_list (map (\<lambda>e. impact (snd e)) imps) = 0"
  shows "insights stats imps recs =
           [headerLine, summaryMixed, findingsHeader] @ findingsBullets @ [practiceFocusHeader]"
  using assms
  by (simp add: insights_def Let_def totalImpact_sum_list practiceFocusLines_def)

theorem practiceFocus_header_without_weakness_witness:
  "map_option
     (\<lambda>r. (map (\<lambda>e. impact (snd e)) (impacts r),
           weaknesses (recommendations r),
           insights benchmarkStats (impacts r) (recommendations r),
           suffix practiceFocusHeader (insightsText r)))
     (analyzeGame benchmarkStats)
   = Some ([0, 0, 0, 0, 0, 0, 0, 0, 0], [],
           [headerLine, summaryMixed, findingsHeader] @ findingsBullets @ [practiceFocusHeader],
           True)"
proof -
  obtain r where r: "analyzeGame benchmarkStats = Some r"
      "recommendations r = generateRecommendations (impacts r)"
      "insightsText r = generateInsightsText benchmarkStats (impacts r) (recommendations r)"
    using analyzeGame_Some [of benchmarkStats] by blast
  from benchmarkStats_impacts have "map (\<lambda>e. (fst e, impact (snd e))) (impacts r)
     = [(''kills'', 0), (''errors'', 0), (''attempts'', 0), (''serviceAces'', 0),
        (''serviceErrors'', 0), (''receptionErrors'', 0), (''digs'', 0),
        (''soloBlocks'', 0), (''blockAssists'', 0)]"
    by (simp add: r(1))
  then have "map snd (map (\<lambda>e. (fst e, impact (snd e))) (impacts r)) = [0, 0, 0, 0, 0, 0, 0, 0, 0]"
    by (simp only: list.map snd_conv)
  then have zero: "map (\<lambda>e. impact (snd e)) (impacts r) = [0, 0, 0, 0, 0, 0, 0, 0, 0]"
    by (simp add: comp_def)
  have band: "\<forall>e \<in> set (impacts r). - 1 < impact (snd e) \<and> impact (snd e) < 1"
  proof
    fix e assume "e \<in> set (impacts r)"
    then have "impact (snd e) \<in> set (map (\<lambda>e. impact (snd e)) (impacts r))"
      by simp
    then have "impact (snd e) = 0"
      unfolding zero by simp
    then show "- 1 < impact (snd e) \<and> impact (snd e) < 1"
      by simp
  qed
  have lines: "insights benchmarkStats (impacts r) (recommendations r) =
      [headerLine, summaryMixed, findingsHeader] @ findingsBullets @ [practiceFocusHeader]"
    unfolding r(2)
    by (rule insights_without_recommendations)
       (simp_all add: no_weakness_in_band [OF band] zero)
  from practiceFocus_header_without_weakness [OF band, of benchmarkStats] zero lines
  show ?thesis
    by (simp add: r)
qed

subsection \<open>The end-to-end example\<close>

lemma scaled_less:
  fixes a b :: real
  assumes "a * 100 < b * 100"
  shows "a * 100 / ln 2 < b * 100 / ln 2"
  using assms ln2_pos by (rule divide_strict_right_mono)

lemma scaled_above_one:
  fixes a :: real
  assumes "1 \<le> a * 100"
  shows "1 < a * 100 / ln 2"
proof -
  have "ln (2::real) < a * 100"
    using assms ln_2_less_1 by linarith
  then show ?thesis
    using ln2_pos by (simp add: pos_less_divide_eq)
qed

text \<open>The two leading entries of a stable sort, when they are strictly ahead of the rest.\<close>

lemma take2_sort_key:
  assumes d: "distinct xs" and a: "a \<in> set xs" and b: "b \<in> set xs" and ab: "a \<noteq> b"
    and amin: "\<And>c. c \<in> set xs \<Longrightarrow> c \<noteq> a \<Longrightarrow> f a < f c"
    and bmin: "\<And>c. c \<in> set xs \<Longrightarrow> c \<noteq> a \<Longrightarrow> c \<noteq> b \<Longrightarrow> f b < f c"
  shows "take 2 (sort_key f xs) = [a, b]"
proof -
  let ?ys = "sort_key f xs"
  have srt: "sorted (map f ?ys)" and st: "set ?ys = set xs" and ds: "distinct ?ys"
    using d by simp_all
  from a st obtain y1 t where ys1: "?ys = y1 # t"
    by (cases ?ys) auto
  have y1: "y1 = a"
  proof (rule ccontr)
    assume ne: "y1 \<noteq> a"
    with a st ys1 have "a \<in> set t" by auto
    with srt ys1 have "f y1 \<le> f a" by auto
    moreover from st ys1 have "y1 \<in> set xs" by auto
    then have "f a < f y1" using ne by (rule amin)
    ultimately show False by simp
  qed
  from b st ys1 y1 ab have "b \<in> set t" by auto
  then obtain y2 rest where t: "t = y2 # rest"
    by (cases t) auto
  from ds ys1 t y1 have y2a: "y2 \<noteq> a" by auto
  have y2: "y2 = b"
  proof (rule ccontr)
    assume ne: "y2 \<noteq> b"
    with \<open>b \<in> set t\<close> t have "b \<in> set rest" by auto
    with srt ys1 t have "f y2 \<le> f b" by auto
    moreover from st ys1 t have "y2 \<in> set xs" by auto
    then have "f b < f y2" using y2a ne by (rule bmin)
    ultimately show False by simp
  qed
  show ?thesis
    by (simp add: ys1 t y1 y2)
qed

text \<open>
  When two entries have impacts above 1 and every other entry has a smaller impact than
  both, the strengths are these two, the larger first.
\<close>

lemma strengths_top2:
  assumes dk: "distinct (map fst imps)"
    and a: "(ka, a) \<in> set imps" and b: "(kb, b) \<in> set imps"
    and b1: "1 < impact b" and ba: "impact b < impact a"
    and rest: "\<And>k c. (k, c) \<in> set imps \<Longrightarrow> k \<noteq> ka \<Longrightarrow> k \<noteq> kb \<Longrightarrow> impact c < impact b"
  shows "map metric (strengths (generateRecommendations imps)) = [ka, kb]"
proof -
  let ?f = "\<lambda>e::string \<times> Impact. - \<bar>impact (snd e)\<bar>"
  let ?P = "\<lambda>e::string \<times> Impact. impact (snd e) > 1"
  let ?xs = "filter ?P imps"
  from dk have "distinct imps" by (simp add: distinct_map)
  then have d: "distinct ?xs" by simp
  from a b1 ba have ia: "(ka, a) \<in> set ?xs" by simp
  from b b1 have ib: "(kb, b) \<in> set ?xs" by simp
  from ba have ne: "(ka, a) \<noteq> (kb, b)" by auto
  have amin: "?f (ka, a) < ?f c" if c: "c \<in> set ?xs" and cne: "c \<noteq> (ka, a)" for c
  proof -
    obtain k e where ce: "c = (k, e)" by (cases c)
    from c ce have mem: "(k, e) \<in> set imps" and pos: "1 < impact e" by simp_all
    have "k \<noteq> ka"
      using eq_key_imp_eq_value [OF dk mem] a cne ce by auto
    have "impact e < impact a"
    proof (cases "k = kb")
      case True
      with eq_key_imp_eq_value [OF dk mem] b have "e = b" by auto
      with ba show ?thesis by simp
    next
      case False
      from rest [OF mem \<open>k \<noteq> ka\<close> False] ba show ?thesis by simp
    qed
    with pos b1 ba show ?thesis by (simp add: ce)
  qed
  have bmin: "?f (kb, b) < ?f c"
    if c: "c \<in> set ?xs" and cna: "c \<noteq> (ka, a)" and cnb: "c \<noteq> (kb, b)" for c
  proof -
    obtain k e where ce: "c = (k, e)" by (cases c)
    from c ce have mem: "(k, e) \<in> set imps" and pos: "1 < impact e" by simp_all
    have "k \<noteq> ka"
      using eq_key_imp_eq_value [OF dk mem] a cna ce by auto
    moreover have "k \<noteq> kb"
      using eq_key_imp_eq_value [OF dk mem] b cnb ce by auto
    ultimately have "impact e < impact b" by (rule rest [OF mem])
    with pos b1 show ?thesis by (simp add: ce)
  qed
  have "take 2 (sort_key ?f ?xs) = [(ka, a), (kb, b)]"
    using d ia ib ne amin bmin by (rule take2_sort_key)
  then have "take 2 (filter ?P (sort_key ?f imps)) = [(ka, a), (kb, b)]"
    by (simp only: filter_sort)
  then show ?thesis
    by (simp add: generateRecommendations_def Let_def metric_strengthOf)
qed

text \<open>The nine impacts of the example.\<close>

lemma exampleStats_impacts:
  "map_option (\<lambda>r. map (\<lambda>e. (fst e, impact (snd e))) (impacts r)) (analyzeGame exampleStats)
     = Some [(''kills'', (50 * (3.5 / 3) - 46.9) * ln 1.255 * 100 / ln 2),
             (''errors'', (10 * (3.5 / 3) - 14.3) * ln 0.921 * 100 / ln 2),
             (''attempts'', (100 * (3.5 / 3) - 96.2) * ln 0.881 * 100 / ln 2),
             (''serviceAces'', (8 * (3.5 / 3) - 6.45) * ln 1.338 * 100 / ln 2),
             (''serviceErrors'', (12 * (3.5 / 3) - 16.0) * ln 0.992 * 100 / ln 2),
             (''receptionErrors'', (2 * (3.5 / 3) - 3.71) * ln 0.757 * 100 / ln 2),
             (''digs'', (35 * (3.5 / 3) - 31.1) * ln 1.152 * 100 / ln 2),
             (''soloBlocks'', (3 * (3.5 / 3) - 1.94) * ln 1.257 * 100 / ln 2),
             (''blockAssists'', (15 * (3.5 / 3) - 13.9) * ln 1.126 * 100 / ln 2)]"
  by (simp add: analyzeGame_def normalizeStats_def totalSetsOr3_def exampleStats_def Let_def
      calculateImpacts_def ODDS_RATIOS_def RESEARCH_BENCHMARKS_win_def)

lemma example_digs_above_one: "1 < (35 * (3.5 / 3) - 31.1) * ln 1.152 * 100 / ln (2::real)"
  using ln_bounds_1152 by (intro scaled_above_one) simp

lemma example_serviceAces_above_one: "1 < (8 * (3.5 / 3) - 6.45) * ln 1.338 * 100 / ln (2::real)"
  using ln_bounds_1338 by (intro scaled_above_one) simp

lemma example_digs_below_kills:
  "(35 * (3.5 / 3) - 31.1) * ln 1.152 * 100 / ln 2
     < (50 * (3.5 / 3) - 46.9) * ln 1.255 * 100 / ln (2::real)"
  using ln_lower_1255 ln_bounds_1152 by (intro scaled_less) simp

lemma example_below_digs:
  "(10 * (3.5 / 3) - 14.3) * ln 0.921 * 100 / ln 2
     < (35 * (3.5 / 3) - 31.1) * ln 1.152 * 100 / ln (2::real)"
  "(100 * (3.5 / 3) - 96.2) * ln 0.881 * 100 / ln 2
     < (35 * (3.5 / 3) - 31.1) * ln 1.152 * 100 / ln (2::real)"
  "(8 * (3.5 / 3) - 6.45) * ln 1.338 * 100 / ln 2
     < (35 * (3.5 / 3) - 31.1) * ln 1.152 * 100 / ln (2::real)"
  "(12 * (3.5 / 3) - 16.0) * ln 0.992 * 100 / ln 2
     < (35 * (3.5 / 3) - 31.1) * ln 1.152 * 100 / ln (2::real)"
  "(2 * (3.5 / 3) - 3.71) * ln 0.757 * 100 / ln 2
     < (35 * (3.5 / 3) - 31.1) * ln 1.152 * 100 / ln (2::real)"
  "(3 * (3.5 / 3) - 1.94) * ln 1.257 * 100 / ln 2
     < (35 * (3.5 / 3) - 31.1) * ln 1.152 * 100 / ln (2::real)"
  "(15 * (3.5 / 3) - 13.9) * ln 1.126 * 100 / ln 2
     < (35 * (3.5 / 3) - 31.1) * ln 1.152 * 100 / ln (2::real)"
proof -
  show "(10 * (3.5 / 3) - 14.3) * ln 0.921 * 100 / ln 2
     < (35 * (3.5 / 3) - 31.1) * ln 1.152 * 100 / ln (2::real)"
    using ln_lower_0921 ln_bounds_1152 by (intro scaled_less) simp
  show "(100 * (3.5 / 3) - 96.2) * ln 0.881 * 100 / ln 2
     < (35 * (3.5 / 3) - 31.1) * ln 1.152 * 100 / ln (2::real)"
  proof -
    have "(100 * (3.5 / 3) - 96.2) * ln 0.881 * 100 / ln (2::real) < 0"
      by (intro divide_neg_pos mult_neg_pos mult_pos_neg) simp_all
    also have "0 < (35 * (3.5 / 3) - 31.1) * ln 1.152 * 100 / ln (2::real)"
      by (rule order_less_trans [OF zero_less_one example_digs_above_one])
    finally show ?thesis .
  qed
  show "(8 * (3.5 / 3) - 6.45) * ln 1.338 * 100 / ln 2
     < (35 * (3.5 / 3) - 31.1) * ln 1.152 * 100 / ln (2::real)"
    using ln_bounds_1338 ln_bounds_1152 by (intro scaled_less) simp
  show "(12 * (3.5 / 3) - 16.0) * ln 0.992 * 100 / ln 2
     < (35 * (3.5 / 3) - 31.1) * ln 1.152 * 100 / ln (2::real)"
    using ln_lower_0992 ln_bounds_1152 by (intro scaled_less) simp
  show "(2 * (3.5 / 3) - 3.71) * ln 0.757 * 100 / ln 2
     < (35 * (3.5 / 3) - 31.1) * ln 1.152 * 100 / ln (2::real)"
    using ln_lower_0757 ln_bounds_1152 by (intro scaled_less) simp
  show "(3 * (3.5 / 3) - 1.94) * ln 1.257 * 100 / ln 2
     < (35 * (3.5 / 3) - 31.1) * ln 1.152 * 100 / ln (2::real)"
    using ln_upper_1257 ln_bounds_1152 by (intro scaled_less) simp
  show "(15 * (3.5 / 3) - 13.9) * ln 1.126 * 100 / ln 2
     < (35 * (3.5 / 3) - 31.1) * ln 1.152 * 100 / ln (2::real)"
    using ln_upper_1126 ln_bounds_1152 by (intro scaled_less) simp
qed

text \<open>The strengths of the example: kills and digs, the two largest of the impacts above 1.\<close>

lemma exampleStats_strengths:
  "map_option (\<lambda>r. map metric (strengths (recommendations r))) (analyzeGame exampleStats)
     = Some [''kills'', ''digs'']"
proof -
  obtain r where r: "analyzeGame exampleStats = Some r"
      "normalizeStats exampleStats (Some (totalSetsOr3 exampleStats)) = Some (normalized r)"
      "impacts r = calculateImpacts (normalized r)"
      "recommendations r = generateRecommendations (impacts r)"
    using analyzeGame_Some [of exampleStats] by blast
  let ?proj = "\<lambda>e::string \<times> Impact. (fst e, impact (snd e))"
  define iK :: real where "iK = (50 * (3.5 / 3) - 46.9) * ln 1.255 * 100 / ln 2"
  define iE :: real where "iE = (10 * (3.5 / 3) - 14.3) * ln 0.921 * 100 / ln 2"
  define iA :: real where "iA = (100 * (3.5 / 3) - 96.2) * ln 0.881 * 100 / ln 2"
  define iSA :: real where "iSA = (8 * (3.5 / 3) - 6.45) * ln 1.338 * 100 / ln 2"
  define iSE :: real where "iSE = (12 * (3.5 / 3) - 16.0) * ln 0.992 * 100 / ln 2"
  define iRE :: real where "iRE = (2 * (3.5 / 3) - 3.71) * ln 0.757 * 100 / ln 2"
  define iD :: real where "iD = (35 * (3.5 / 3) - 31.1) * ln 1.152 * 100 / ln 2"
  define iSB :: real where "iSB = (3 * (3.5 / 3) - 1.94) * ln 1.257 * 100 / ln 2"
  define iBA :: real where "iBA = (15 * (3.5 / 3) - 13.9) * ln 1.126 * 100 / ln 2"
  note defs = iK_def iE_def iA_def iSA_def iSE_def iRE_def iD_def iSB_def iBA_def
  from exampleStats_impacts have proj: "map ?proj (impacts r) =
       [(''kills'', iK), (''errors'', iE), (''attempts'', iA), (''serviceAces'', iSA),
        (''serviceErrors'', iSE), (''receptionErrors'', iRE), (''digs'', iD),
        (''soloBlocks'', iSB), (''blockAssists'', iBA)]"
    by (simp only: defs r(1) option.map option.inject)
  have below: "iE < iD" "iA < iD" "iSA < iD" "iSE < iD" "iRE < iD" "iSB < iD" "iBA < iD"
    unfolding defs by (rule example_below_digs)+
  have top: "1 < iD" "iD < iK"
    unfolding defs by (rule example_digs_above_one example_digs_below_kills)+
  have dk: "distinct (map fst (impacts r))"
    unfolding r(3) calculateImpacts_keys_normalized [OF r(2)] by simp
  have "(''kills'', iK) \<in> set (map ?proj (impacts r))"
    unfolding proj by simp
  then obtain a where a: "(''kills'', a) \<in> set (impacts r)" "impact a = iK"
    by auto
  have "(''digs'', iD) \<in> set (map ?proj (impacts r))"
    unfolding proj by simp
  then obtain b where b: "(''digs'', b) \<in> set (impacts r)" "impact b = iD"
    by auto
  have rest: "impact c < impact b"
    if "(k, c) \<in> set (impacts r)" and "k \<noteq> ''kills''" and "k \<noteq> ''digs''" for k c
  proof -
    from that(1) have "(k, impact c) \<in> set (map ?proj (impacts r))"
      by force
    with that(2,3) have "impact c < iD"
      unfolding proj using below by auto
    with b(2) show ?thesis by simp
  qed
  have "map metric (strengths (generateRecommendations (impacts r))) = [''kills'', ''digs'']"
    using dk a(1) b(1) _ _ rest
  proof (rule strengths_top2)
    show "1 < impact b"
      using top(1) by (simp only: b(2))
    show "impact b < impact a"
      using top(2) by (simp only: a(2) b(2))
  qed
  then show ?thesis
    by (simp add: r(1) r(4))
qed

lemma exampleStats_fields:
  "map_option (\<lambda>r. killEfficiency (metrics r)) (analyzeGame exampleStats) = Some 50"
  "map_option (\<lambda>r. map_of (normalized r) ''serviceAces'') (analyzeGame exampleStats)
     = Some (Some (8 * (3.5 / 3)))"
  "map_option (\<lambda>r. map_option impact (map_of (impacts r) ''serviceAces''))
     (analyzeGame exampleStats)
     = Some (Some ((8 * (3.5 / 3) - 6.45) * ln 1.338 * 100 / ln 2))"
  by (simp_all add: analyzeGame_def normalizeStats_def totalSetsOr3_def exampleStats_def Let_def
      calculateImpacts_def calculateImpacts_loop_map_of [OF distinct_ODDS_RATIOS]
      ODDS_RATIOS_def RESEARCH_BENCHMARKS_win_def)

text \<open>
  C5, as the code has it. For the example box score, \<open>analyzeGame\<close> returns
  \<open>metrics.killEfficiency = 50\<close> and \<open>normalized.serviceAces = 8 * (3.5 / 3)\<close>; the impact of
  serviceAces is positive, indeed above the threshold 1; the strengths list is kills, digs,
  the two entries of largest \<open>|impact|\<close> among those above 1.
\<close>

theorem analyzeGame_example:
  "map_option (\<lambda>r. killEfficiency (metrics r)) (analyzeGame exampleStats) = Some 50
   \<and> map_option (\<lambda>r. map_of (normalized r) ''serviceAces'') (analyzeGame exampleStats)
       = Some (Some (8 * (3.5 / 3)))
   \<and> map_option (\<lambda>r. map_option impact (map_of (impacts r) ''serviceAces''))
         (analyzeGame exampleStats)
       = Some (Some ((8 * (3.5 / 3) - 6.45) * ln 1.338 * 100 / ln 2))
   \<and> 1 < (8 * (3.5 / 3) - 6.45) * ln 1.338 * 100 / ln (2::real)
   \<and> map_option (\<lambda>r. map metric (strengths (recommendations r))) (analyzeGame exampleStats)
       = Some [''kills'', ''digs'']"
  using exampleStats_fields example_serviceAces_above_one exampleStats_strengths
  by (intro conjI)

text \<open>
  C5, where the claim fails.
  The impact of serviceAces is above 1, but those of kills and digs are larger and the list
  keeps two entries: serviceAces is not among the strengths.
\<close>

theorem analyzeGame_example_counterexample:
  "map_option (\<lambda>r. ''serviceAces'' \<in> set (map metric (strengths (recommendations r))))
     (analyzeGame exampleStats) = Some False"
proof -
  obtain r where r: "analyzeGame exampleStats = Some r"
    using analyzeGame_Some [of exampleStats] by blast
  with exampleStats_strengths
  have "map metric (strengths (recommendations r)) = [''kills'', ''digs'']"
    by simp
  then have "''serviceAces'' \<notin> set (map metric (strengths (recommendations r)))"
    by (simp only: list.set insert_iff empty_iff) simp
  with r show ?thesis
    by simp
qed

end
